theory Spec2Isabelle
  imports Main "HOL-Library.Word"
begin

section \<open>The CSV editor of databricks\_csv\_uploader.py\<close>

text \<open>
  The application keeps one table in browser-side stores (\<open>csv-data-store\<close>,
  \<open>original-data-store\<close>, \<open>undo-stack-store\<close>). Every callback receives the stores'
  contents as freshly deserialised JSON, works on them as Python objects, and returns
  values that are serialised again when the callback returns. Inside one callback
  Python objects can be shared; between two callbacks nothing is.
\<close>

subsection \<open>Cells, rows and the stored table\<close>

text \<open>
  A cell is a JSON scalar as Python sees it. \<open>CInt\<close> is an integer that fits pandas'
  \<open>int64\<close> (larger integers are outside this model); \<open>CFloat\<close> carries a finite
  float by its \<open>repr\<close> text; \<open>CNull\<close> is a missing value (\<open>None\<close> in JSON, \<open>None\<close> or
  \<open>NaN\<close> in a frame: \<open>pd.notna\<close> is false on both and both serialise to \<open>null\<close>).
  Text is a list of characters, one \<open>char\<close> per character of the Python string, so
  that \<open>length\<close> is Python's \<open>len\<close>.
\<close>

datatype cell = CStr string | CInt "64 word" | CFloat string | CBool bool | CNull

text \<open>A row is a Python dict from column name to cell: keys in insertion order.\<close>

type_synonym row = "(string \<times> cell) list"

text \<open>\<open>csv_data = {'data': df.to_dict('records'), 'columns': df.columns.tolist()}\<close>\<close>

record csv_data =
  data :: "row list"
  columns :: "string list"

text \<open>\<open>d[k] = v\<close> on a dict: an existing key keeps its place, a new key goes last.\<close>

primrec setitem :: "string \<Rightarrow> cell \<Rightarrow> row \<Rightarrow> row" where
  "setitem k v [] = [(k, v)]"
| "setitem k v (p # ps) = (if fst p = k then (k, v) # ps else p # setitem k v ps)"


text \<open>\<open>{col: '' for col in cols}\<close>, and \<open>dict(zip(cols, vals))\<close>\<close>

definition dict_of :: "(string \<times> cell) list \<Rightarrow> row" where
  "dict_of kvs = foldl (\<lambda>d kv. setitem (fst kv) (snd kv) d) [] kvs"

subsection \<open>The undo stack\<close>

definition UNDO_LIMIT :: nat where
  "UNDO_LIMIT = 10"

text \<open>
  \<open>undo_stack\<close> is \<open>None\<close> while the store has never been written. \<open>not undo_stack\<close>
  holds for \<open>None\<close> and for the empty list. \<open>undo_stack[-UNDO_LIMIT:]\<close> keeps the last
  \<open>UNDO_LIMIT\<close> elements.
\<close>

definition push_to_undo_stack :: "'a list option \<Rightarrow> 'a \<Rightarrow> 'a list" where
  "push_to_undo_stack undo_stack new_state =
     (let undo_stack1 = (case undo_stack of None \<Rightarrow> [] | Some xs \<Rightarrow> xs);
          undo_stack2 = undo_stack1 @ [new_state]
      in if length undo_stack2 > UNDO_LIMIT
         then drop (length undo_stack2 - UNDO_LIMIT) undo_stack2
         else undo_stack2)"

definition pop_from_undo_stack :: "'a list option \<Rightarrow> 'a option \<times> 'a list" where
  "pop_from_undo_stack undo_stack =
     (case undo_stack of
        None \<Rightarrow> (None, [])
      | Some xs \<Rightarrow> if xs = [] then (None, []) else (Some (last xs), butlast xs))"

definition get_undo_count :: "'a list option \<Rightarrow> nat" where
  "get_undo_count undo_stack = (case undo_stack of None \<Rightarrow> 0 | Some xs \<Rightarrow> length xs)"

subsection \<open>Python objects inside one callback\<close>

text \<open>
  \<open>csv_data.copy()\<close> is a shallow copy: the new dict refers to the same \<open>'data'\<close> list
  and the same \<open>'columns'\<close> list as \<open>csv_data\<close>, and that list to the same row dicts.
  What a later \<open>append\<close>, \<open>row[k] = v\<close> or \<open>del row[k]\<close> does to a shared object is
  seen through both dicts, so the objects live in an explicit store; strings and
  cells are immutable and are held by value.
\<close>

type_synonym addr = nat

datatype pyobj =
    DictRow row
  | ListRows "addr list"
  | ListCols "string list"
  | DictCsv addr addr

type_synonym heap = "pyobj list"

definition alloc :: "pyobj \<Rightarrow> heap \<Rightarrow> addr \<times> heap" where
  "alloc v h = (length h, h @ [v])"

definition lookup :: "heap \<Rightarrow> addr \<Rightarrow> pyobj option" where
  "lookup h a = (if a < length h then Some (h ! a) else None)"

definition get_row :: "heap \<Rightarrow> addr \<Rightarrow> row" where
  "get_row h a = (case lookup h a of Some (DictRow r) \<Rightarrow> r | _ \<Rightarrow> [])"

definition get_rows :: "heap \<Rightarrow> addr \<Rightarrow> addr list" where
  "get_rows h a = (case lookup h a of Some (ListRows rs) \<Rightarrow> rs | _ \<Rightarrow> [])"

definition get_cols :: "heap \<Rightarrow> addr \<Rightarrow> string list" where
  "get_cols h a = (case lookup h a of Some (ListCols cs) \<Rightarrow> cs | _ \<Rightarrow> [])"

text \<open>\<open>d['data']\<close> and \<open>d['columns']\<close>: the references a csv\_data dict holds.\<close>

definition data_ref :: "heap \<Rightarrow> addr \<Rightarrow> addr" where
  "data_ref h d = (case lookup h d of Some (DictCsv l k) \<Rightarrow> l | _ \<Rightarrow> d)"

definition columns_ref :: "heap \<Rightarrow> addr \<Rightarrow> addr" where
  "columns_ref h d = (case lookup h d of Some (DictCsv l k) \<Rightarrow> k | _ \<Rightarrow> d)"



text \<open>\<open>d.copy()\<close>\<close>

definition dict_copy :: "addr \<Rightarrow> heap \<Rightarrow> addr \<times> heap" where
  "dict_copy d h = alloc (DictCsv (data_ref h d) (columns_ref h d)) h"

text \<open>\<open>l.append(r)\<close> on the list of rows at \<open>l\<close>, \<open>k.append(name)\<close> on the list of columns at \<open>k\<close>\<close>

definition rows_append :: "addr \<Rightarrow> addr \<Rightarrow> heap \<Rightarrow> heap" where
  "rows_append l r h = h[l := ListRows (get_rows h l @ [r])]"

definition cols_append :: "addr \<Rightarrow> string \<Rightarrow> heap \<Rightarrow> heap" where
  "cols_append k name h = h[k := ListCols (get_cols h k @ [name])]"

text \<open>\<open>for row in l: row[k] = v\<close> and \<open>for row in l: if k in row: del row[k]\<close>, in place\<close>

definition row_setitem :: "string \<Rightarrow> cell \<Rightarrow> heap \<Rightarrow> addr \<Rightarrow> heap" where
  "row_setitem k v h r = h[r := DictRow (setitem k v (get_row h r))]"


text \<open>Deserialising the JSON of a store: every dict and list is a new object.\<close>

fun new_rows :: "row list \<Rightarrow> heap \<Rightarrow> addr list \<times> heap" where
  "new_rows [] h = ([], h)"
| "new_rows (r # rs) h =
     (let (a, h1) = alloc (DictRow r) h;
          (as, h2) = new_rows rs h1
      in (a # as, h2))"

definition new_row_list :: "row list \<Rightarrow> heap \<Rightarrow> addr \<times> heap" where
  "new_row_list rs h = (let (as, h1) = new_rows rs h in alloc (ListRows as) h1)"

definition new_csv :: "csv_data \<Rightarrow> heap \<Rightarrow> addr \<times> heap" where
  "new_csv c h =
     (let (l, h1) = new_row_list (data c) h;
          (k, h2) = alloc (ListCols (columns c)) h1
      in alloc (DictCsv l k) h2)"


text \<open>Serialising what a callback returns: the objects as they are at that moment.\<close>

definition to_json :: "heap \<Rightarrow> addr \<Rightarrow> csv_data" where
  "to_json h d =
     \<lparr>data = map (get_row h) (get_rows h (data_ref h d)),
      columns = get_cols h (columns_ref h d)\<rparr>"

text \<open>
  The entries that arrive in \<open>undo-stack-store\<close> are deserialised objects that no other
  name of the callback refers to: they are held by value. What the callback pushes is
  a reference, read when the returned stack is serialised.
\<close>

datatype entry = Stored csv_data | Pushed addr

definition entry_to_json :: "heap \<Rightarrow> entry \<Rightarrow> csv_data" where
  "entry_to_json h e = (case e of Stored c \<Rightarrow> c | Pushed d \<Rightarrow> to_json h d)"

definition stored :: "csv_data list option \<Rightarrow> entry list option" where
  "stored undo_stack = map_option (map Stored) undo_stack"

subsection \<open>Results of a callback\<close>

text \<open>
  An exception that leaves a callback is an error value: Dash then updates nothing.
  \<open>no_update\<close> in a returned tuple is \<open>NoUpdate\<close>. A status message is the
  \<open>html.Div\<close> the callback returns, by what it says and by its \<open>className\<close>. The
  \<open>preview-section\<close> output is \<open>create_preview_table\<close> of the frame of the returned
  rows; it is left out of the tuples and modelled on its own below.
\<close>

datatype error = PreventUpdate | AttributeError | ValueError

datatype 'a upd = NoUpdate | Set 'a

datatype css_class = StatusWarning | StatusError | StatusSuccess

datatype message =
    NoPreviousState
  | Undone nat
  | NoOriginalData
  | Reverted
  | LastColumn
  | ColumnNotFound string
  | ColumnRemoved string

datatype status = Div message css_class

text \<open>\<open>file_data\<close> is \<open>None\<close> or a dict of strings (\<open>{}\<close> after the file is removed).\<close>

type_synonym file_data = "(string \<times> string) list"

subsection \<open>Decimal text of a number\<close>

fun str_nat :: "nat \<Rightarrow> string" where
  "str_nat n =
     (if n < 10 then [''0123456789'' ! n]
      else str_nat (n div 10) @ [''0123456789'' ! (n mod 10)])"

declare str_nat.simps [simp del]


subsection \<open>The editing callbacks\<close>

text \<open>
  \<open>add_row\<close>: the guard, the push of \<open>csv_data.copy()\<close>, the new row built from
  \<open>csv_data['columns']\<close>, \<open>csv_data['data'].append(new_row)\<close>, and
  \<open>file_data.get('filename')\<close>, which raises on \<open>None\<close>.
\<close>

definition add_row ::
  "nat \<Rightarrow> csv_data option \<Rightarrow> csv_data list option \<Rightarrow> file_data option
   \<Rightarrow> error + (csv_data \<times> csv_data list)" where
  "add_row n_clicks csv_data undo_stack file_data =
     (case csv_data of
        None \<Rightarrow> Inl PreventUpdate
      | Some c \<Rightarrow>
          if n_clicks = 0 then Inl PreventUpdate
          else
            let (csv, h0) = new_csv c [];
                (snapshot, h1) = dict_copy csv h0;
                updated_stack = push_to_undo_stack (stored undo_stack) (Pushed snapshot);
                (new_row, h2) =
                  alloc (DictRow (dict_of (map (\<lambda>col. (col, CStr ''''))
                                               (get_cols h1 (columns_ref h1 csv))))) h1;
                h3 = rows_append (data_ref h2 csv) new_row h2
            in (case file_data of
                  None \<Rightarrow> Inl AttributeError
                | Some _ \<Rightarrow> Inr (to_json h3 csv, map (entry_to_json h3) updated_stack)))"

text \<open>
  \<open>add_column\<close>: the name is \<open>New_Column_\<close> and the number of columns plus one;
  \<open>csv_data['columns'].append\<close> and \<open>row[new_col_name] = ''\<close> work in place.
\<close>

definition add_column ::
  "nat \<Rightarrow> csv_data option \<Rightarrow> csv_data list option \<Rightarrow> file_data option
   \<Rightarrow> error + (csv_data \<times> csv_data list)" where
  "add_column n_clicks csv_data undo_stack file_data =
     (case csv_data of
        None \<Rightarrow> Inl PreventUpdate
      | Some c \<Rightarrow>
          if n_clicks = 0 then Inl PreventUpdate
          else
            let (csv, h0) = new_csv c [];
                (snapshot, h1) = dict_copy csv h0;
                updated_stack = push_to_undo_stack (stored undo_stack) (Pushed snapshot);
                new_col_name =
                  ''New_Column_'' @ str_nat (length (get_cols h1 (columns_ref h1 csv)) + 1);
                h2 = cols_append (columns_ref h1 csv) new_col_name h1;
                h3 = foldl (row_setitem new_col_name (CStr ''''))
                           h2 (get_rows h2 (data_ref h2 csv))
            in (case file_data of
                  None \<Rightarrow> Inl AttributeError
                | Some _ \<Rightarrow> Inr (to_json h3 csv, map (entry_to_json h3) updated_stack)))"


text \<open>
  \<open>undo_changes\<close>: nothing is mutated, so the popped state is returned as it arrived.
  The message counts the remaining steps (\<open>Undone 0\<close> is the text "no more undo steps").
\<close>

definition undo_changes ::
  "nat \<Rightarrow> csv_data option \<Rightarrow> csv_data list option \<Rightarrow> file_data option
   \<Rightarrow> error + (csv_data upd \<times> csv_data list upd \<times> status)" where
  "undo_changes n_clicks current_data undo_stack file_data =
     (if n_clicks = 0 then Inl PreventUpdate
      else
        let (previous_state, updated_stack) = pop_from_undo_stack undo_stack
        in case previous_state of
             None \<Rightarrow> Inr (NoUpdate, NoUpdate, Div NoPreviousState StatusWarning)
           | Some prev \<Rightarrow>
               let remaining_steps = get_undo_count (Some updated_stack)
               in Inr (Set prev, Set updated_stack, Div (Undone remaining_steps) StatusSuccess))"

text \<open>
  \<open>revert_to_original\<close>: \<open>not original_data.get('data')\<close> holds when the original has
  no row. The current state is pushed as it is (no copy, and nothing is mutated);
  when \<open>current_data\<close> is empty the stack is returned as it arrived, \<open>None\<close> included.
\<close>

definition revert_to_original ::
  "nat \<Rightarrow> csv_data option \<Rightarrow> csv_data list option \<Rightarrow> csv_data option \<Rightarrow> file_data option
   \<Rightarrow> csv_data upd \<times> csv_data list option upd \<times> status" where
  "revert_to_original n_clicks current_data undo_stack original_data file_data =
     (case original_data of
        None \<Rightarrow> (NoUpdate, NoUpdate, Div NoOriginalData StatusWarning)
      | Some orig \<Rightarrow>
          if n_clicks = 0 \<or> data orig = []
          then (NoUpdate, NoUpdate, Div NoOriginalData StatusWarning)
          else
            let updated_stack =
                  (case current_data of
                     Some cur \<Rightarrow> Some (push_to_undo_stack undo_stack cur)
                   | None \<Rightarrow> undo_stack)
            in (Set orig, Set updated_stack, Div Reverted StatusSuccess))"

subsection \<open>The part of pandas the callbacks use\<close>





















subsection \<open>Headers from the first row\<close>




subsection \<open>The preview table\<close>



subsection \<open>Submitting the edited table\<close>


subsection \<open>The schema of the generated table\<close>




section \<open>Properties\<close>

subsection \<open>What the editing callbacks return\<close>

text \<open>
  Deserialising into an empty store lays the rows out at the addresses from 0, then
  the list of rows, the list of columns and the dict. The three callbacks that mutate
  are then computed once and for all: each theorem below gives the serialised result,
  the stored state and the pushed snapshot, for every input that passes the guards.
\<close>

lemma new_rows_eq:
  "new_rows rs h = ([length h ..< length h + length rs], h @ map DictRow rs)"
proof (induction rs arbitrary: h)
  case Nil
  then show ?case by simp
next
  case (Cons r rs)
  have "[length h ..< length h + Suc (length rs)] =
        length h # [Suc (length h) ..< Suc (length h) + length rs]"
    by (subst upt_rec) simp
  then show ?case
    by (simp add: Cons.IH alloc_def)
qed

lemma new_csv_eq:
  "new_csv c [] =
     (length (data c) + 2,
      map DictRow (data c) @
      [ListRows [0 ..< length (data c)], ListCols (columns c),
       DictCsv (length (data c)) (length (data c) + 1)])"
  by (simp add: new_csv_def new_row_list_def new_rows_eq alloc_def)

lemma map_push_to_undo_stack:
  "map f (push_to_undo_stack st x) = push_to_undo_stack (map_option (map f) st) (f x)"
  by (cases st) (simp_all add: push_to_undo_stack_def Let_def drop_map UNDO_LIMIT_def)

lemma entries_to_json:
  "map (entry_to_json h) (push_to_undo_stack (stored st) (Pushed d)) =
   push_to_undo_stack st (to_json h d)"
proof -
  have "map_option (map (entry_to_json h)) (stored st) = st"
    by (cases st) (simp_all add: stored_def entry_to_json_def comp_def)
  then show ?thesis
    by (simp add: map_push_to_undo_stack entry_to_json_def)
qed

lemma rows_read_back:
  assumes "\<And>i. i < length rs \<Longrightarrow> lookup h i = Some (DictRow (f (rs ! i)))"
  shows "map (get_row h) [0 ..< length rs] = map f rs"
  by (rule map_upt_eqI) (simp_all add: get_row_def assms)

lemma add_row_returns:
  assumes "n_clicks \<noteq> 0"
  shows "add_row n_clicks (Some c) st (Some fd) =
         (let c' = \<lparr>data = data c @ [dict_of (map (\<lambda>col. (col, CStr '''')) (columns c))],
                    columns = columns c\<rparr>
          in Inr (c', push_to_undo_stack st c'))"
proof -
  define n where "n = length (data c)"
  define r where "r = dict_of (map (\<lambda>col. (col, CStr '''')) (columns c))"
  define h where "h = (map DictRow (data c) @
      [ListRows [0 ..< n], ListCols (columns c), DictCsv n (Suc n), DictCsv n (Suc n), DictRow r])
      [n := ListRows ([0 ..< n] @ [Suc (Suc (Suc (Suc n)))])]"
  have rows: "map (get_row h) [0 ..< length (data c)] = map (\<lambda>x. x) (data c)"
    by (rule rows_read_back) (simp add: h_def lookup_def nth_append n_def)
  have new: "get_row h (Suc (Suc (Suc (Suc n)))) = r"
    by (simp add: h_def get_row_def lookup_def nth_append n_def)
  have cur: "to_json h (Suc (Suc n)) = \<lparr>data = data c @ [r], columns = columns c\<rparr>"
    using rows new
    by (simp add: to_json_def data_ref_def columns_ref_def get_rows_def get_cols_def
        lookup_def h_def nth_append n_def)
  have snap: "to_json h (Suc (Suc (Suc n))) = \<lparr>data = data c @ [r], columns = columns c\<rparr>"
    using rows new
    by (simp add: to_json_def data_ref_def columns_ref_def get_rows_def get_cols_def
        lookup_def h_def nth_append n_def)
  have "add_row n_clicks (Some c) st (Some fd) =
          Inr (to_json h (Suc (Suc n)), push_to_undo_stack st (to_json h (Suc (Suc (Suc n)))))"
    using assms
    by (simp add: add_row_def new_csv_eq dict_copy_def alloc_def Let_def entries_to_json
        data_ref_def columns_ref_def lookup_def get_cols_def get_rows_def rows_append_def
        nth_append h_def n_def r_def)
  then show ?thesis
    by (simp add: cur snap Let_def r_def)
qed

lemma rows_updated_in_place:
  assumes "\<And>h r. g h r = h[r := DictRow (f (get_row h r))]"
  shows "m \<le> length rs \<Longrightarrow>
         foldl g (map DictRow rs @ rest) [0 ..< m] =
         map DictRow (map f (take m rs) @ drop m rs) @ rest"
proof (induction m)
  case 0
  then show ?case by simp
next
  case (Suc m)
  then have m: "m < length rs" and le: "m \<le> length rs" by simp_all
  let ?start = "map DictRow rs @ rest"
  let ?h = "map DictRow (map f (take m rs) @ drop m rs) @ rest"
  have row: "get_row ?h m = rs ! m"
    using m by (simp add: get_row_def lookup_def nth_append)
  have upd: "?h[m := DictRow (f (rs ! m))] =
        map DictRow (map f (take (Suc m) rs) @ drop (Suc m) rs) @ rest"
    using m
    by (simp add: list_update_append take_Suc_conv_app_nth
        Cons_nth_drop_Suc [symmetric])
  have "foldl g ?start [0 ..< Suc m] = g (foldl g ?start [0 ..< m]) m"
    by simp
  also have "\<dots> = g ?h m"
    by (rule arg_cong [where f = "\<lambda>h. g h m"]) (rule Suc.IH [OF le])
  also have "\<dots> = ?h[m := DictRow (f (rs ! m))]"
    by (simp only: assms row)
  finally show ?case
    by (simp only: upd)
qed

lemma rows_setitem_in_place:
  "foldl (row_setitem k v) (map DictRow rs @ rest) [0 ..< length rs] =
   map DictRow (map (setitem k v) rs) @ rest"
  using rows_updated_in_place [where g = "row_setitem k v" and f = "setitem k v"
      and m = "length rs" and rs = rs and rest = rest]
  by (simp add: row_setitem_def)


lemma to_json_read:
  assumes "lookup h d = Some (DictCsv l k)"
    and "lookup h l = Some (ListRows [0 ..< length rs])"
    and "lookup h k = Some (ListCols cs)"
    and "\<And>i. i < length rs \<Longrightarrow> lookup h i = Some (DictRow (rs ! i))"
  shows "to_json h d = \<lparr>data = rs, columns = cs\<rparr>"
proof -
  have "map (get_row h) [0 ..< length rs] = map (\<lambda>x. x) rs"
    by (rule rows_read_back) (simp add: assms)
  then show ?thesis
    by (simp add: to_json_def data_ref_def columns_ref_def get_rows_def get_cols_def assms)
qed

lemma add_column_returns:
  assumes "n_clicks \<noteq> 0"
  shows "add_column n_clicks (Some c) st (Some fd) =
         (let new_col_name = ''New_Column_'' @ str_nat (length (columns c) + 1);
              c' = \<lparr>data = map (setitem new_col_name (CStr '''')) (data c),
                    columns = columns c @ [new_col_name]\<rparr>
          in Inr (c', push_to_undo_stack st c'))"
proof -
  define n where "n = length (data c)"
  define nm where "nm = ''New_Column_'' @ str_nat (Suc (length (columns c)))"
  define rs where "rs = map (setitem nm (CStr '''')) (data c)"
  define h where "h = map DictRow rs @
      [ListRows [0 ..< n], ListCols (columns c @ [nm]), DictCsv n (Suc n), DictCsv n (Suc n)]"
  have len: "length rs = n"
    by (simp add: rs_def n_def)
  have cur: "to_json h (Suc (Suc n)) = \<lparr>data = rs, columns = columns c @ [nm]\<rparr>"
    by (rule to_json_read [where l = n and k = "Suc n"])
       (simp_all add: h_def lookup_def nth_append len)
  have snap: "to_json h (Suc (Suc (Suc n))) = \<lparr>data = rs, columns = columns c @ [nm]\<rparr>"
    by (rule to_json_read [where l = n and k = "Suc n"])
       (simp_all add: h_def lookup_def nth_append len)
  have "add_column n_clicks (Some c) st (Some fd) =
          Inr (to_json h (Suc (Suc n)), push_to_undo_stack st (to_json h (Suc (Suc (Suc n)))))"
    using assms
    by (simp add: add_column_def new_csv_eq dict_copy_def alloc_def Let_def entries_to_json
        data_ref_def columns_ref_def lookup_def get_cols_def get_rows_def cols_append_def
        nth_append list_update_append rows_setitem_in_place h_def n_def nm_def rs_def)
  then show ?thesis
    by (simp add: cur snap Let_def nm_def rs_def)
qed


subsection \<open>The bound of the undo stack\<close>

lemma push_to_undo_stack_length:
  "length (push_to_undo_stack st s) \<le> UNDO_LIMIT"
  by (simp add: push_to_undo_stack_def UNDO_LIMIT_def Let_def)

text \<open>
  C3. The undo stack never holds more than 10 snapshots: whatever the stack was, the
  stack after a push has at most 10 entries; and pushing onto a stack of exactly 10
  entries gives a stack of 10 entries that has lost its oldest entry (index 0), kept
  the other nine in order, and has the pushed snapshot as its most recent entry.
\<close>

theorem undo_stack_bounded_evicts_oldest:
  "length (push_to_undo_stack st s) \<le> 10 \<and>
   (length xs = 10 \<longrightarrow>
      push_to_undo_stack (Some xs) s = tl xs @ [s] \<and>
      length (push_to_undo_stack (Some xs) s) = 10 \<and>
      last (push_to_undo_stack (Some xs) s) = s)"
proof -
  have bound: "length (push_to_undo_stack st s) \<le> 10"
    using push_to_undo_stack_length [of st s] by (simp add: UNDO_LIMIT_def)
  have full: "push_to_undo_stack (Some xs) s = tl xs @ [s]" if "length xs = 10"
    using that by (cases xs) (simp_all add: push_to_undo_stack_def UNDO_LIMIT_def Let_def)
  show ?thesis
    using bound full by simp
qed

theorem undo_stack_bounded_evicts_oldest_witness:
  "length (push_to_undo_stack (Some [0,1,2,3,4,5,6,7,8,9::nat]) 10) \<le> 10 \<and>
   push_to_undo_stack (Some [0,1,2,3,4,5,6,7,8,9::nat]) 10 = [1,2,3,4,5,6,7,8,9,10]"
  using undo_stack_bounded_evicts_oldest
    [of "Some [0,1,2,3,4,5,6,7,8,9::nat]" 10 "[0,1,2,3,4,5,6,7,8,9::nat]"]
  by simp

subsection \<open>Undo after an edit\<close>

lemma push_to_undo_stack_last:
  "push_to_undo_stack st s \<noteq> [] \<and> last (push_to_undo_stack st s) = s"
  by (cases st) (simp_all add: push_to_undo_stack_def UNDO_LIMIT_def Let_def)

lemma pop_after_push:
  "pop_from_undo_stack (Some (push_to_undo_stack st s)) =
     (Some s, butlast (push_to_undo_stack st s))"
  using push_to_undo_stack_last [of st s] by (simp add: pop_from_undo_stack_def)

text \<open>
  C1. One \<open>add_row\<close> followed by one \<open>undo_changes\<close> does not give back the table that was
  current before: the snapshot that \<open>add_row\<close> pushes shares the list of rows with the
  table it then appends to, so the serialised stack already holds the new row, and the
  undo restores the table with two rows.
\<close>

theorem add_row_then_undo_keeps_new_row:
  "add_row 1 (Some \<lparr>data = [[(''name'', CStr ''Ann'')]], columns = [''name'']\<rparr>)
           (Some []) (Some []) =
     Inr (\<lparr>data = [[(''name'', CStr ''Ann'')], [(''name'', CStr '''')]],
            columns = [''name'']\<rparr>,
          [\<lparr>data = [[(''name'', CStr ''Ann'')], [(''name'', CStr '''')]],
             columns = [''name'']\<rparr>]) \<and>
   undo_changes 1
     (Some \<lparr>data = [[(''name'', CStr ''Ann'')], [(''name'', CStr '''')]],
             columns = [''name'']\<rparr>)
     (Some [\<lparr>data = [[(''name'', CStr ''Ann'')], [(''name'', CStr '''')]],
               columns = [''name'']\<rparr>])
     (Some []) =
     Inr (Set \<lparr>data = [[(''name'', CStr ''Ann'')], [(''name'', CStr '''')]],
                columns = [''name'']\<rparr>,
          Set [], Div (Undone 0) StatusSuccess) \<and>
   \<lparr>data = [[(''name'', CStr ''Ann'')], [(''name'', CStr '''')]], columns = [''name'']\<rparr>
     \<noteq> \<lparr>data = [[(''name'', CStr ''Ann'')]], columns = [''name'']\<rparr>"
  by (simp add: add_row_returns dict_of_def push_to_undo_stack_def UNDO_LIMIT_def
      undo_changes_def pop_from_undo_stack_def get_undo_count_def Let_def)

text \<open>
  C2. The snapshot that \<open>add_column\<close> pushes is not protected from the changes that
  follow the push: pushed before the column is appended, it is returned on the stack
  with the new column in its column list and in its row, and so differs from the table
  that was current when it was pushed.
\<close>

theorem add_column_pushed_snapshot_is_mutated:
  "add_column 1
     (Some \<lparr>data = [[(''name'', CStr ''Ann'')]], columns = [''name'']\<rparr>)
     (Some []) (Some []) =
     Inr (\<lparr>data = [[(''name'', CStr ''Ann''), (''New_Column_2'', CStr '''')]],
            columns = [''name'', ''New_Column_2'']\<rparr>,
          [\<lparr>data = [[(''name'', CStr ''Ann''), (''New_Column_2'', CStr '''')]],
             columns = [''name'', ''New_Column_2'']\<rparr>]) \<and>
   \<lparr>data = [[(''name'', CStr ''Ann''), (''New_Column_2'', CStr '''')]],
     columns = [''name'', ''New_Column_2'']\<rparr>
     \<noteq> \<lparr>data = [[(''name'', CStr ''Ann'')]], columns = [''name'']\<rparr>"
  by (simp add: add_column_returns push_to_undo_stack_def UNDO_LIMIT_def Let_def
      str_nat.simps)

subsection \<open>Undo\<close>

text \<open>
  C9. A click on undo with an empty undo stack (never written, or the empty list)
  returns normally, with a message of class warning and \<open>no_update\<close> for the current
  table and for the stack; with a non-empty stack it returns the most recent snapshot
  as the current table, the stack without it, and a message that counts the remaining
  undo steps.
\<close>

theorem undo_warns_on_empty_stack_else_pops:
  assumes "n_clicks \<noteq> 0"
  shows "undo_changes n_clicks cur None fd =
           Inr (NoUpdate, NoUpdate, Div NoPreviousState StatusWarning) \<and>
         undo_changes n_clicks cur (Some []) fd =
           Inr (NoUpdate, NoUpdate, Div NoPreviousState StatusWarning) \<and>
         undo_changes n_clicks cur (Some (xs @ [x])) fd =
           Inr (Set x, Set xs, Div (Undone (length xs)) StatusSuccess)"
  using assms
  by (simp add: undo_changes_def pop_from_undo_stack_def get_undo_count_def)

theorem undo_warns_on_empty_stack_else_pops_witness:
  "undo_changes 1 None (Some []) None =
     Inr (NoUpdate, NoUpdate, Div NoPreviousState StatusWarning) \<and>
   undo_changes 1 None
     (Some ([\<lparr>data = [], columns = [''a'']\<rparr>] @ [\<lparr>data = [], columns = [''b'']\<rparr>])) None =
     Inr (Set \<lparr>data = [], columns = [''b'']\<rparr>, Set [\<lparr>data = [], columns = [''a'']\<rparr>],
          Div (Undone 1) StatusSuccess)"
  using undo_warns_on_empty_stack_else_pops
    [of 1 None None "[\<lparr>data = [], columns = [''a'']\<rparr>]" "\<lparr>data = [], columns = [''b'']\<rparr>"]
  by simp

subsection \<open>Revert\<close>

text \<open>
  C8, as the code has it. With an original snapshot that has at least one row, a click
  on revert returns that snapshot, field for field, as the current table, and the
  stack with the table that was current pushed onto it, so that one undo afterwards
  gives that table back. With no original snapshot, or with one that has no row, it
  returns a message of class warning and \<open>no_update\<close> for the table and the stack.
\<close>

theorem revert_restores_original_that_has_rows:
  assumes "n_clicks \<noteq> 0" and "data orig \<noteq> []"
  shows "revert_to_original n_clicks (Some cur) st (Some orig) fd =
           (Set orig, Set (Some (push_to_undo_stack st cur)), Div Reverted StatusSuccess) \<and>
         undo_changes n_clicks (Some orig) (Some (push_to_undo_stack st cur)) fd =
           Inr (Set cur, Set (butlast (push_to_undo_stack st cur)),
                Div (Undone (length (butlast (push_to_undo_stack st cur)))) StatusSuccess) \<and>
         revert_to_original n_clicks (Some cur) st None fd =
           (NoUpdate, NoUpdate, Div NoOriginalData StatusWarning) \<and>
         revert_to_original n_clicks (Some cur) st (Some (orig\<lparr>data := []\<rparr>)) fd =
           (NoUpdate, NoUpdate, Div NoOriginalData StatusWarning)"
  using assms
  by (simp add: revert_to_original_def undo_changes_def pop_after_push get_undo_count_def)

theorem revert_restores_original_that_has_rows_witness:
  "revert_to_original 1
     (Some \<lparr>data = [[(''a'', CStr ''y'')], [(''a'', CStr '''')]], columns = [''a'']\<rparr>)
     (Some []) (Some \<lparr>data = [[(''a'', CStr ''x'')]], columns = [''a'']\<rparr>) None =
     (Set \<lparr>data = [[(''a'', CStr ''x'')]], columns = [''a'']\<rparr>,
      Set (Some [\<lparr>data = [[(''a'', CStr ''y'')], [(''a'', CStr '''')]], columns = [''a'']\<rparr>]),
      Div Reverted StatusSuccess)"
  using revert_restores_original_that_has_rows
    [of 1 "\<lparr>data = [[(''a'', CStr ''x'')]], columns = [''a'']\<rparr>"
        "\<lparr>data = [[(''a'', CStr ''y'')], [(''a'', CStr '''')]], columns = [''a'']\<rparr>"
        "Some []" None]
  by (simp add: push_to_undo_stack_def UNDO_LIMIT_def)

text \<open>
  An upload of a file that has a header line and no data row leaves an original
  snapshot with columns and no rows. After a row is added, revert does not restore
  it: the stores are left as they are.
\<close>

theorem revert_ignores_original_without_rows:
  "revert_to_original 1
     (Some \<lparr>data = [[(''a'', CStr '''')]], columns = [''a'']\<rparr>)
     (Some [\<lparr>data = [[(''a'', CStr '''')]], columns = [''a'']\<rparr>])
     (Some \<lparr>data = [], columns = [''a'']\<rparr>) (Some []) =
     (NoUpdate, NoUpdate, Div NoOriginalData StatusWarning)"
  by (simp add: revert_to_original_def)

subsection \<open>Adding and deleting a column\<close>

lemma map_of_setitem:
  "map_of (setitem k v r) = (map_of r)(k \<mapsto> v)"
  by (induction r) auto


text \<open>
  C6, as the code has it. For a table with N columns, a click on add column returns
  normally, whatever the column names are: the undo stack gets one more entry (pushed
  with \<open>push_to_undo_stack\<close>), the column list gets the name \<open>New_Column_\<close>N+1 at its
  end, and every row holds the empty string under that name, its other cells as they
  were. A name that is already a column does not make the call fail.
\<close>

theorem add_column_appends_named_column:
  assumes "n_clicks \<noteq> 0"
    and "new_col_name = ''New_Column_'' @ str_nat (length (columns c) + 1)"
  shows "\<exists>pushed rows.
           add_column n_clicks (Some c) st (Some fd) =
             Inr (\<lparr>data = rows, columns = columns c @ [new_col_name]\<rparr>,
                  push_to_undo_stack st pushed) \<and>
           length rows = length (data c) \<and>
           (\<forall>i < length rows.
              map_of (rows ! i) = (map_of (data c ! i))(new_col_name \<mapsto> CStr ''''))"
proof -
  let ?rows = "map (setitem new_col_name (CStr '''')) (data c)"
  let ?c' = "\<lparr>data = ?rows, columns = columns c @ [new_col_name]\<rparr>"
  have "add_column n_clicks (Some c) st (Some fd) = Inr (?c', push_to_undo_stack st ?c')"
    using assms by (simp add: add_column_returns Let_def)
  moreover have "length ?rows = length (data c)"
    by simp
  moreover have "\<forall>i < length ?rows.
      map_of (?rows ! i) = (map_of (data c ! i))(new_col_name \<mapsto> CStr '''')"
    by (simp add: map_of_setitem)
  ultimately show ?thesis
    by blast
qed

theorem add_column_appends_named_column_witness:
  "\<exists>pushed rows.
     add_column 1 (Some \<lparr>data = [[(''id'', CInt 7)]], columns = [''id'']\<rparr>) None (Some []) =
       Inr (\<lparr>data = rows, columns = [''id''] @ [''New_Column_2'']\<rparr>,
            push_to_undo_stack None pushed) \<and>
     length rows = 1 \<and>
     map_of (rows ! 0) = [''id'' \<mapsto> CInt 7, ''New_Column_2'' \<mapsto> CStr '''']"
proof -
  have name: "''New_Column_2'' = ''New_Column_'' @ str_nat (length [''id''] + 1)"
    by (simp add: str_nat.simps)
  have "\<exists>pushed rows.
     add_column 1 (Some \<lparr>data = [[(''id'', CInt 7)]], columns = [''id'']\<rparr>) None (Some []) =
       Inr (\<lparr>data = rows, columns = [''id''] @ [''New_Column_2'']\<rparr>,
            push_to_undo_stack None pushed) \<and>
     length rows = length [[(''id'', CInt 7)]] \<and>
     (\<forall>i < length rows.
        map_of (rows ! i) = (map_of ([[(''id'', CInt 7)]] ! i))(''New_Column_2'' \<mapsto> CStr ''''))"
    using add_column_appends_named_column
      [of 1 "''New_Column_2''" "\<lparr>data = [[(''id'', CInt 7)]], columns = [''id'']\<rparr>" None "[]"]
      name
    by simp
  then obtain pushed rows where
    r: "add_column 1 (Some \<lparr>data = [[(''id'', CInt 7)]], columns = [''id'']\<rparr>) None (Some []) =
          Inr (\<lparr>data = rows, columns = [''id''] @ [''New_Column_2'']\<rparr>,
               push_to_undo_stack None pushed)"
    and l: "length rows = length [[(''id'', CInt 7)]]"
    and m: "\<forall>i < length rows.
        map_of (rows ! i) = (map_of ([[(''id'', CInt 7)]] ! i))(''New_Column_2'' \<mapsto> CStr '''')"
    by blast
  from l m have "map_of (rows ! 0) = [''id'' \<mapsto> CInt 7, ''New_Column_2'' \<mapsto> CStr '''']"
    by simp
  with r l show ?thesis
    by auto
qed

text \<open>
  A table whose only column is already called \<open>New_Column_2\<close>: add column returns
  normally, the name is listed twice, and the cell that was under it is overwritten.
\<close>

theorem add_column_accepts_colliding_name:
  "add_column 1
     (Some \<lparr>data = [[(''New_Column_2'', CStr ''kept?'')]], columns = [''New_Column_2'']\<rparr>)
     (Some []) (Some []) =
     Inr (\<lparr>data = [[(''New_Column_2'', CStr '''')]],
            columns = [''New_Column_2'', ''New_Column_2'']\<rparr>,
          [\<lparr>data = [[(''New_Column_2'', CStr '''')]],
             columns = [''New_Column_2'', ''New_Column_2'']\<rparr>])"
  by (simp add: add_column_returns push_to_undo_stack_def UNDO_LIMIT_def Let_def
      str_nat.simps)




subsection \<open>Frames built from records\<close>











subsection \<open>Headers of the preview\<close>








subsection \<open>What a submitted table leaves in the stores\<close>












subsection \<open>Inferred column types\<close>








end
